theory Spec2Isabelle
  imports Complex_Main
begin

section \<open>JavaScript values\<close>

text \<open>
  The program (\<^verbatim>\<open>src/app.js\<close>) works on values that come out of \<^verbatim>\<open>JSON.parse\<close>, out of
  form fields and out of its own object literals. They are modelled as a datatype of
  JSON values extended with \<^verbatim>\<open>undefined\<close>.

  A number is a double. The program never computes with numbers, it only compares them
  and tests them for finiteness, so a finite double is represented by the rational it
  denotes (every double is a rational, and \<^verbatim>\<open><\<close>, \<^verbatim>\<open><=\<close> on finite doubles are the
  order of the rationals); \<^verbatim>\<open>NaN\<close> and the two infinities are separate constructors.
  \<^verbatim>\<open>+0\<close> and \<^verbatim>\<open>-0\<close> are both \<open>Fin 0\<close>: no operation used by the program tells them
  apart.

  A string is a list of characters, read as code units below 256.
  An object is the list of its own properties; the value of a property is the first
  binding of its name in the list.
\<close>

datatype jsnum = Fin rat | PosInf | NegInf | NaN

datatype jsval =
    JUndefined
  | JNull
  | JBool bool
  | JNum jsnum
  | JStr string
  | JArr "jsval list"
  | JObj "(string \<times> jsval) list"

datatype error =
    TypeError             \<comment> \<open>a property access on \<^verbatim>\<open>null\<close> or \<^verbatim>\<open>undefined\<close>, or a
                               property assignment to a primitive (strict mode)\<close>
  | MissingHourlyFields   \<comment> \<open>\<^verbatim>\<open>Error("Unexpected Open-Meteo response (missing hourly fields).")\<close>\<close>
  | NoHourlyData          \<comment> \<open>\<^verbatim>\<open>Error("No hourly data found for the tonight window.")\<close>\<close>
  | InvalidJsonObject     \<comment> \<open>\<^verbatim>\<open>Error("Invalid JSON object.")\<close>\<close>
  | NotJson               \<comment> \<open>the result would be an array carrying a named property,
                               which no JSON value represents\<close>

subsection \<open>Tests and conversions of the language\<close>


text \<open>\<^verbatim>\<open>Boolean(v)\<close>, which is also the test of \<^verbatim>\<open>!v\<close>, \<^verbatim>\<open>v || d\<close> and \<^verbatim>\<open>if (v)\<close>.\<close>

fun toBoolean :: "jsval \<Rightarrow> bool" where
  "toBoolean JUndefined = False"
| "toBoolean JNull = False"
| "toBoolean (JBool b) = b"
| "toBoolean (JNum (Fin r)) = (r \<noteq> 0)"
| "toBoolean (JNum NaN) = False"
| "toBoolean (JNum PosInf) = True"
| "toBoolean (JNum NegInf) = True"
| "toBoolean (JStr s) = (s \<noteq> [])"
| "toBoolean (JArr xs) = True"
| "toBoolean (JObj ps) = True"

text \<open>\<^verbatim>\<open>v && typeof v === "object"\<close>: \<^verbatim>\<open>typeof null\<close> is \<^verbatim>\<open>"object"\<close> too, but \<^verbatim>\<open>null\<close> is falsy.\<close>

fun isObjectLike :: "jsval \<Rightarrow> bool" where
  "isObjectLike (JArr xs) = True"
| "isObjectLike (JObj ps) = True"
| "isObjectLike v = False"

text \<open>\<^verbatim>\<open>Array.isArray(v) ? v : []\<close>\<close>

fun arrayOrEmpty :: "jsval \<Rightarrow> jsval list" where
  "arrayOrEmpty (JArr xs) = xs"
| "arrayOrEmpty v = []"

text \<open>\<^verbatim>\<open>typeof v === "string"\<close>\<close>

fun isString :: "jsval \<Rightarrow> bool" where
  "isString (JStr s) = True"
| "isString v = False"

subsection \<open>The data store and the environment\<close>

text \<open>
  \<^verbatim>\<open>state.data\<close>. \<^verbatim>\<open>loadData\<close> and \<^verbatim>\<open>sanitizeImportedData\<close> build it from \<^verbatim>\<open>emptyData()\<close>,
  with arrays in the three lists and a string in \<^verbatim>\<open>defaultComboId\<close>; \<^verbatim>\<open>loadData\<close> does
  not look at the elements of the arrays, so they are arbitrary values.
\<close>

record dataset =
  version :: nat
  blankets :: "jsval list"
  combos :: "jsval list"
  rules :: "jsval list"
  defaultComboId :: string
  lastForecast :: jsval

definition emptyData :: dataset where
  "emptyData = \<lparr> version = 1, blankets = [], combos = [], rules = [],
                 defaultComboId = [], lastForecast = JNull \<rparr>"

text \<open>
  The conversions between numbers, strings and dates are algorithms of the language
  standard, and identifiers, the clock's time zone and \<^verbatim>\<open>JSON.stringify\<close> belong to the
  platform; none of them is code of this repository. They are parameters of the model,
  and every theorem below holds for all of them.
\<close>

record env =
  numberToString :: "jsnum \<Rightarrow> string"    \<comment> \<open>\<^verbatim>\<open>String(n)\<close> for a number\<close>
  stringToNumber :: "string \<Rightarrow> jsnum"    \<comment> \<open>\<^verbatim>\<open>Number(s)\<close> for a string\<close>
  dateTime :: "jsval \<Rightarrow> int option"     \<comment> \<open>\<^verbatim>\<open>new Date(v).getTime()\<close>, \<open>None\<close> for \<^verbatim>\<open>NaN\<close>\<close>
  localTime :: "int \<Rightarrow> int"             \<comment> \<open>\<^verbatim>\<open>LocalTime(t)\<close>: a time value as local time, in ms\<close>
  utcTime :: "int \<Rightarrow> int"               \<comment> \<open>\<^verbatim>\<open>UTC(t)\<close>: a local time as time value, in ms\<close>
  newId :: "nat \<Rightarrow> string"               \<comment> \<open>the result of the \<open>n\<close>-th call of \<^verbatim>\<open>newId()\<close>\<close>
  stringify :: "dataset \<Rightarrow> string"       \<comment> \<open>\<^verbatim>\<open>JSON.stringify(data)\<close>\<close>

fun joinWith :: "string \<Rightarrow> string list \<Rightarrow> string" where
  "joinWith sep [] = []"
| "joinWith sep [s] = s"
| "joinWith sep (s # t # ss) = s @ sep @ joinWith sep (t # ss)"

text \<open>
  \<^verbatim>\<open>String(v)\<close>, also the conversion of a property key. An array is the join of its
  elements, where \<^verbatim>\<open>null\<close> and \<^verbatim>\<open>undefined\<close> elements give the empty string.
\<close>

fun toString :: "env \<Rightarrow> jsval \<Rightarrow> string" where
  "toString E JUndefined = ''undefined''"
| "toString E JNull = ''null''"
| "toString E (JBool b) = (if b then ''true'' else ''false'')"
| "toString E (JNum n) = numberToString E n"
| "toString E (JStr s) = s"
| "toString E (JArr xs) =
     joinWith '','' (map (\<lambda>x. if x = JNull \<or> x = JUndefined then [] else toString E x) xs)"
| "toString E (JObj ps) = ''[object Object]''"

text \<open>\<^verbatim>\<open>Number(v)\<close>\<close>

fun toNumber :: "env \<Rightarrow> jsval \<Rightarrow> jsnum" where
  "toNumber E JUndefined = NaN"
| "toNumber E JNull = Fin 0"
| "toNumber E (JBool b) = (if b then Fin 1 else Fin 0)"
| "toNumber E (JNum n) = n"
| "toNumber E (JStr s) = stringToNumber E s"
| "toNumber E (JArr xs) = stringToNumber E (toString E (JArr xs))"
| "toNumber E (JObj ps) = stringToNumber E (toString E (JObj ps))"

subsection \<open>Reading a property\<close>

definition digitChar :: "nat \<Rightarrow> char" where
  "digitChar d = ''0123456789'' ! d"

function decimal :: "nat \<Rightarrow> string" where
  "decimal n = (if n < 10 then [digitChar n] else decimal (n div 10) @ [digitChar (n mod 10)])"
  by pat_completeness auto
termination
  by (relation "measure (\<lambda>n. n)") auto

declare decimal.simps [simp del]

text \<open>
  \<open>getProp v k\<close> is \<^verbatim>\<open>v[k]\<close> for a value \<open>v\<close> that is neither \<^verbatim>\<open>null\<close> nor
  \<^verbatim>\<open>undefined\<close>: an own property of an object, an element or the length of an array or
  of a string, and \<^verbatim>\<open>undefined\<close> otherwise. Inherited members (functions such as
  \<^verbatim>\<open>toString\<close>) are not JSON values; the program reads a computed key only in
  \<^verbatim>\<open>metrics[field]\<close> and passes the result to \<open>isFiniteNumber\<close>, which is false for a
  function as it is for \<^verbatim>\<open>undefined\<close>.
\<close>

fun getProp :: "jsval \<Rightarrow> string \<Rightarrow> jsval" where
  "getProp (JObj ps) k = (case map_of ps k of Some v \<Rightarrow> v | None \<Rightarrow> JUndefined)"
| "getProp (JArr xs) k =
     (if k = ''length'' then JNum (Fin (of_nat (length xs)))
      else case find (\<lambda>i. decimal i = k) [0 ..< length xs] of
             Some i \<Rightarrow> xs ! i | None \<Rightarrow> JUndefined)"
| "getProp (JStr s) k =
     (if k = ''length'' then JNum (Fin (of_nat (length s)))
      else case find (\<lambda>i. decimal i = k) [0 ..< length s] of
             Some i \<Rightarrow> JStr [s ! i] | None \<Rightarrow> JUndefined)"
| "getProp v k = JUndefined"

text \<open>\<open>readProp v k\<close> is \<^verbatim>\<open>v[k]\<close> for any \<open>v\<close>: it throws on \<^verbatim>\<open>null\<close> and \<^verbatim>\<open>undefined\<close>.\<close>

fun readProp :: "jsval \<Rightarrow> string \<Rightarrow> error + jsval" where
  "readProp JUndefined k = Inl TypeError"
| "readProp JNull k = Inl TypeError"
| "readProp v k = Inr (getProp v k)"

section \<open>Rules\<close>

text \<open>
  One iteration of the loop of \<^verbatim>\<open>ruleMatches\<close> over \<^verbatim>\<open>conditions\<close>: \<open>Inr False\<close> where
  the body executes \<^verbatim>\<open>return false\<close>, \<open>Inr True\<close> where it goes on to the next
  condition (\<^verbatim>\<open>continue\<close>, or \<^verbatim>\<open>break\<close> out of the \<^verbatim>\<open>switch\<close>), \<open>Inl\<close> where it throws.
  The case on \<open>(left, right)\<close> is the test \<^verbatim>\<open>!isFiniteNumber(left) || !isFiniteNumber(right)\<close>:
  only two finite numbers reach the \<^verbatim>\<open>switch\<close>, whose \<^verbatim>\<open>default\<close> is the last branch of
  \<open>compareOp\<close>.
\<close>

definition compareOp :: "jsval \<Rightarrow> rat \<Rightarrow> rat \<Rightarrow> bool" where
  "compareOp op left right =
     (if op = JStr ''<='' then left \<le> right
      else if op = JStr ''<'' then left < right
      else if op = JStr ''>='' then left \<ge> right
      else if op = JStr ''>'' then left > right
      else False)"

definition condHolds :: "env \<Rightarrow> jsval \<Rightarrow> jsval \<Rightarrow> error + bool" where
  "condHolds E metrics cond =
     (if \<not> isObjectLike cond then Inr False
      else let field = getProp cond ''field'' in
        if field = JStr ''wetRisk'' then
          (if getProp cond ''op'' \<noteq> JStr ''is'' then Inr False
           else let want = toBoolean (getProp cond ''value'') in
             case readProp metrics ''wetRisk'' of
               Inl e \<Rightarrow> Inl e
             | Inr w \<Rightarrow> Inr (toBoolean w = want))
        else
          case readProp metrics (toString E field) of
            Inl e \<Rightarrow> Inl e
          | Inr left \<Rightarrow>
              (case (left, toNumber E (getProp cond ''value'')) of
                 (JNum (Fin l), Fin r) \<Rightarrow> Inr (compareOp (getProp cond ''op'') l r)
               | _ \<Rightarrow> Inr False))"

fun conditionsLoop :: "env \<Rightarrow> jsval \<Rightarrow> jsval list \<Rightarrow> error + bool" where
  "conditionsLoop E metrics [] = Inr True"
| "conditionsLoop E metrics (cond # conds) =
     (case condHolds E metrics cond of
        Inl e \<Rightarrow> Inl e
      | Inr ok \<Rightarrow> if ok then conditionsLoop E metrics conds else Inr False)"

definition ruleMatches :: "env \<Rightarrow> jsval \<Rightarrow> jsval \<Rightarrow> error + bool" where
  "ruleMatches E rule metrics =
     (if \<not> isObjectLike rule then Inr False
      else conditionsLoop E metrics (arrayOrEmpty (getProp rule ''conditions'')))"

section \<open>Recommendation\<close>







section \<open>Time window\<close>

text \<open>
  A valid \<^verbatim>\<open>Date\<close> is its time value, an integer number of milliseconds.
  \<^verbatim>\<open>d.setHours(h, m, s, ms)\<close> replaces the time within the local day of \<open>d\<close>:
  \<^verbatim>\<open>UTC(MakeDate(Day(LocalTime(t)), MakeTime(h, m, s, ms)))\<close>.
  \<^verbatim>\<open>d.setDate(d.getDate() + 1)\<close> is \<^verbatim>\<open>UTC(MakeDate(MakeDay(year, month, date + 1), TimeWithinDay(LocalTime(t))))\<close>,
  and \<^verbatim>\<open>MakeDay\<close> of the day after the date of \<open>t\<close> is \<^verbatim>\<open>Day(LocalTime(t)) + 1\<close>, so the
  calendar is not needed. Time values beyond the range of \<^verbatim>\<open>Date\<close> (about 270000 years
  around 1970) are not modelled.
\<close>

definition msPerDay :: int where
  "msPerDay = 86400000"

definition makeTime :: "int \<Rightarrow> int \<Rightarrow> int \<Rightarrow> int \<Rightarrow> int" where
  "makeTime h m s ms = h * 3600000 + m * 60000 + s * 1000 + ms"

definition setHours :: "env \<Rightarrow> int \<Rightarrow> int \<Rightarrow> int \<Rightarrow> int \<Rightarrow> int \<Rightarrow> int" where
  "setHours E t h m s ms = utcTime E ((localTime E t div msPerDay) * msPerDay + makeTime h m s ms)"

definition setDateToNextDay :: "env \<Rightarrow> int \<Rightarrow> int" where
  "setDateToNextDay E t =
     utcTime E ((localTime E t div msPerDay + 1) * msPerDay + localTime E t mod msPerDay)"

text \<open>\<^verbatim>\<open>getTonightWindow(now)\<close>: the pair \<^verbatim>\<open>(start, end)\<close>; the label is formatting only.\<close>

definition getTonightWindow :: "env \<Rightarrow> int \<Rightarrow> int \<times> int" where
  "getTonightWindow E now =
     (let start = setHours E now 19 0 0 0;
          end1 = setDateToNextDay E start;
          end2 = setHours E end1 9 0 0 0
      in (start, end2))"

section \<open>Weather\<close>

text \<open>\<^verbatim>\<open>hourly?.name\<close>\<close>

definition optProp :: "jsval \<Rightarrow> string \<Rightarrow> jsval" where
  "optProp v k = (if v = JNull \<or> v = JUndefined then JUndefined else getProp v k)"

fun isArray :: "jsval \<Rightarrow> bool" where
  "isArray (JArr xs) = True"
| "isArray v = False"

text \<open>\<^verbatim>\<open>arr[idx]\<close> for an array and a number index: \<^verbatim>\<open>undefined\<close> beyond the end.\<close>

definition elemAt :: "jsval list \<Rightarrow> nat \<Rightarrow> jsval" where
  "elemAt arr idx = (if idx < length arr then arr ! idx else JUndefined)"

text \<open>
  \<^verbatim>\<open>ms >= windowStart.getTime() && ms < windowEnd.getTime()\<close>; the time value of an
  invalid \<^verbatim>\<open>Date\<close> is \<^verbatim>\<open>NaN\<close> (\<open>None\<close>), and every comparison with it is false.
\<close>

definition inWindow :: "int \<Rightarrow> int option \<Rightarrow> int option \<Rightarrow> bool" where
  "inWindow ms windowStart windowEnd =
     ((case windowStart of None \<Rightarrow> False | Some s \<Rightarrow> ms \<ge> s)
      \<and> (case windowEnd of None \<Rightarrow> False | Some e \<Rightarrow> ms < e))"

text \<open>The loop \<^verbatim>\<open>for (let i = 0; i < times.length; i += 1)\<close> that fills \<^verbatim>\<open>indices\<close>.\<close>

function indicesLoop ::
  "env \<Rightarrow> jsval list \<Rightarrow> int option \<Rightarrow> int option \<Rightarrow> nat \<Rightarrow> nat list \<Rightarrow> nat list" where
  "indicesLoop E timesArr windowStart windowEnd i indices =
     (if i < length timesArr then
        (case dateTime E (timesArr ! i) of
           None \<Rightarrow> indicesLoop E timesArr windowStart windowEnd (i + 1) indices
         | Some ms \<Rightarrow>
             if inWindow ms windowStart windowEnd
             then indicesLoop E timesArr windowStart windowEnd (i + 1) (indices @ [i])
             else indicesLoop E timesArr windowStart windowEnd (i + 1) indices)
      else indices)"
  by pat_completeness auto
termination
  by (relation "measure (\<lambda>(E, timesArr, ws, we, i, indices). length timesArr - i)") auto

declare indicesLoop.simps [simp del]

text \<open>
  \<^verbatim>\<open>pickMin\<close> and \<^verbatim>\<open>pickMax\<close>: the loops over \<^verbatim>\<open>indices\<close> with the running \<^verbatim>\<open>best\<close>, which is
  \<^verbatim>\<open>null\<close> (\<open>None\<close>) or a finite number.
\<close>

fun pickMinLoop :: "jsval list \<Rightarrow> rat option \<Rightarrow> nat list \<Rightarrow> rat option" where
  "pickMinLoop arr best [] = best"
| "pickMinLoop arr best (idx # rest) =
     (case elemAt arr idx of
        JNum (Fin v) \<Rightarrow>
          (if best = None \<or> v < the best then pickMinLoop arr (Some v) rest
           else pickMinLoop arr best rest)
      | _ \<Rightarrow> pickMinLoop arr best rest)"

fun pickMaxLoop :: "jsval list \<Rightarrow> rat option \<Rightarrow> nat list \<Rightarrow> rat option" where
  "pickMaxLoop arr best [] = best"
| "pickMaxLoop arr best (idx # rest) =
     (case elemAt arr idx of
        JNum (Fin v) \<Rightarrow>
          (if best = None \<or> v > the best then pickMaxLoop arr (Some v) rest
           else pickMaxLoop arr best rest)
      | _ \<Rightarrow> pickMaxLoop arr best rest)"

definition pickMin :: "nat list \<Rightarrow> jsval list \<Rightarrow> rat option" where
  "pickMin indices arr = pickMinLoop arr None indices"

definition pickMax :: "nat list \<Rightarrow> jsval list \<Rightarrow> rat option" where
  "pickMax indices arr = pickMaxLoop arr None indices"

text \<open>The value of \<^verbatim>\<open>best\<close> as it is stored in the metrics object.\<close>

fun numberOrNull :: "rat option \<Rightarrow> jsval" where
  "numberOrNull None = JNull"
| "numberOrNull (Some v) = JNum (Fin v)"

definition computeTonightMetricsFromHourly ::
  "env \<Rightarrow> jsval \<Rightarrow> int option \<Rightarrow> int option \<Rightarrow> error + jsval" where
  "computeTonightMetricsFromHourly E hourly windowStart windowEnd =
     (let timesArr = optProp hourly ''time'';
          temps = optProp hourly ''temperature_2m'';
          feels = optProp hourly ''apparent_temperature'';
          precip = optProp hourly ''precipitation_probability'';
          wind = optProp hourly ''windspeed_10m''
      in
      if \<not> isArray timesArr \<or> \<not> isArray temps \<or> \<not> isArray feels \<or> \<not> isArray precip \<or> \<not> isArray wind
      then Inl MissingHourlyFields
      else
        let indices = indicesLoop E (arrayOrEmpty timesArr) windowStart windowEnd 0 [] in
        if length indices = 0 then Inl NoHourlyData
        else
          let minTempF = pickMin indices (arrayOrEmpty temps);
              minFeelsF = pickMin indices (arrayOrEmpty feels);
              maxPrecipProb = pickMax indices (arrayOrEmpty precip);
              maxWindMph = pickMax indices (arrayOrEmpty wind);
              wetRisk = (case maxPrecipProb of Some p \<Rightarrow> p \<ge> 50 | None \<Rightarrow> False)
          in Inr (JObj [(''minTempF'', numberOrNull minTempF),
                        (''minFeelsF'', numberOrNull minFeelsF),
                        (''maxPrecipProb'', numberOrNull maxPrecipProb),
                        (''maxWindMph'', numberOrNull maxWindMph),
                        (''wetRisk'', JBool wetRisk)]))"


section \<open>Mutations of the data store\<close>

text \<open>
  The part of the program's state that the mutations change: \<^verbatim>\<open>state.data\<close>, the
  contents of \<^verbatim>\<open>localStorage\<close> and the number of identifiers \<^verbatim>\<open>newId()\<close> has produced.
  The form fields and the rendered page are not part of it. A mutation returns the
  state it leaves behind together with the exception it threw, if any.
\<close>

record app_state =
  data :: dataset
  storage :: "string \<Rightarrow> string option"
  idsIssued :: nat

definition STORAGE_KEY :: string where
  "STORAGE_KEY = ''roo_pwa_data_v1''"

definition saveData :: "env \<Rightarrow> app_state \<Rightarrow> app_state" where
  "saveData E s = s\<lparr> storage := (storage s)(STORAGE_KEY \<mapsto> stringify E (data s)) \<rparr>"

text \<open>
  \<^verbatim>\<open>obj.k = v\<close> for one of the names \<^verbatim>\<open>blanketIds\<close> and \<^verbatim>\<open>comboId\<close>. The file is in strict
  mode, where the assignment to a primitive throws. An array would take the name as an
  extra property, which is outside the values modelled here.
\<close>

fun putProp :: "(string \<times> jsval) list \<Rightarrow> string \<Rightarrow> jsval \<Rightarrow> (string \<times> jsval) list" where
  "putProp [] k v = [(k, v)]"
| "putProp (p # ps) k v = (if fst p = k then (k, v) # ps else p # putProp ps k v)"

fun setProp :: "jsval \<Rightarrow> string \<Rightarrow> jsval \<Rightarrow> error + jsval" where
  "setProp (JObj ps) k v = Inr (JObj (putProp ps k v))"
| "setProp (JArr xs) k v = Inl NotJson"
| "setProp w k v = Inl TypeError"

text \<open>\<^verbatim>\<open>xs.find((x) => x.id === id)\<close>, with \<^verbatim>\<open>undefined\<close> when there is none.\<close>

fun findById :: "string \<Rightarrow> jsval list \<Rightarrow> error + jsval" where
  "findById ident [] = Inr JUndefined"
| "findById ident (x # xs) =
     (case readProp x ''id'' of
        Inl e \<Rightarrow> Inl e
      | Inr v \<Rightarrow> if v = JStr ident then Inr x else findById ident xs)"

text \<open>\<^verbatim>\<open>xs.filter((x) => x.id !== id)\<close>\<close>

fun rejectById :: "string \<Rightarrow> jsval list \<Rightarrow> error + jsval list" where
  "rejectById ident [] = Inr []"
| "rejectById ident (x # xs) =
     (case readProp x ''id'' of
        Inl e \<Rightarrow> Inl e
      | Inr v \<Rightarrow> (case rejectById ident xs of
                   Inl e \<Rightarrow> Inl e
                 | Inr ys \<Rightarrow> Inr (if v \<noteq> JStr ident then x # ys else ys)))"

text \<open>
  The loop of \<^verbatim>\<open>deleteBlanket\<close> over \<^verbatim>\<open>state.data.combos\<close>. It changes the combos in place,
  so when it throws the combos before the offending one stay changed.
\<close>

fun stripBlanketLoop :: "string \<Rightarrow> jsval list \<Rightarrow> error option \<times> jsval list" where
  "stripBlanketLoop ident [] = (None, [])"
| "stripBlanketLoop ident (combo # rest) =
     (case readProp combo ''blanketIds'' of
        Inl e \<Rightarrow> (Some e, combo # rest)
      | Inr v \<Rightarrow>
          (case setProp combo ''blanketIds''
                  (if isArray v then JArr (filter (\<lambda>bid. bid \<noteq> JStr ident) (arrayOrEmpty v))
                   else JArr []) of
             Inl e \<Rightarrow> (Some e, combo # rest)
           | Inr combo' \<Rightarrow>
               (case stripBlanketLoop ident rest of
                  (err, rest') \<Rightarrow> (err, combo' # rest'))))"

text \<open>\<open>confirmed\<close> is the answer of the user to \<^verbatim>\<open>confirm(...)\<close>.\<close>

definition deleteBlanket :: "env \<Rightarrow> string \<Rightarrow> bool \<Rightarrow> app_state \<Rightarrow> error option \<times> app_state" where
  "deleteBlanket E ident confirmed s =
     (case findById ident (blankets (data s)) of
        Inl e \<Rightarrow> (Some e, s)
      | Inr b \<Rightarrow>
          if \<not> toBoolean b then (None, s)
          else if \<not> confirmed then (None, s)
          else (case rejectById ident (blankets (data s)) of
                  Inl e \<Rightarrow> (Some e, s)
                | Inr bs \<Rightarrow>
                    (case stripBlanketLoop ident (combos (data s)) of
                       (err, cs) \<Rightarrow>
                         let s' = s\<lparr> data := (data s)\<lparr> blankets := bs, combos := cs \<rparr> \<rparr>
                         in (case err of
                               Some e \<Rightarrow> (Some e, s')
                             | None \<Rightarrow> (None, saveData E s')))))"

text \<open>The loop of \<^verbatim>\<open>deleteCombo\<close> over \<^verbatim>\<open>state.data.rules\<close>.\<close>

fun clearComboLoop :: "string \<Rightarrow> jsval list \<Rightarrow> error option \<times> jsval list" where
  "clearComboLoop ident [] = (None, [])"
| "clearComboLoop ident (rule # rest) =
     (case readProp rule ''comboId'' of
        Inl e \<Rightarrow> (Some e, rule # rest)
      | Inr v \<Rightarrow>
          (case (if v = JStr ident then setProp rule ''comboId'' (JStr []) else Inr rule) of
             Inl e \<Rightarrow> (Some e, rule # rest)
           | Inr rule' \<Rightarrow>
               (case clearComboLoop ident rest of
                  (err, rest') \<Rightarrow> (err, rule' # rest'))))"

definition deleteCombo :: "env \<Rightarrow> string \<Rightarrow> bool \<Rightarrow> app_state \<Rightarrow> error option \<times> app_state" where
  "deleteCombo E ident confirmed s =
     (case findById ident (combos (data s)) of
        Inl e \<Rightarrow> (Some e, s)
      | Inr c \<Rightarrow>
          if \<not> toBoolean c then (None, s)
          else if \<not> confirmed then (None, s)
          else (case rejectById ident (combos (data s)) of
                  Inl e \<Rightarrow> (Some e, s)
                | Inr cs \<Rightarrow>
                    (case clearComboLoop ident (rules (data s)) of
                       (err, rs) \<Rightarrow>
                         let s' = s\<lparr> data := (data s)\<lparr>
                                    combos := cs,
                                    rules := rs,
                                    defaultComboId :=
                                      (if defaultComboId (data s) = ident then []
                                       else defaultComboId (data s)) \<rparr> \<rparr>
                         in (case err of
                               Some e \<Rightarrow> (Some e, s')
                             | None \<Rightarrow> (None, saveData E s')))))"

section \<open>Backup import\<close>

text \<open>
  \<^verbatim>\<open>s.trim()\<close>: the white space and line terminators among the code units below 256.
\<close>

definition isWhiteSpace :: "char \<Rightarrow> bool" where
  "isWhiteSpace c = ((of_char c :: nat) \<in> {9, 10, 11, 12, 13, 32, 160})"

definition trim :: "string \<Rightarrow> string" where
  "trim s = rev (dropWhile isWhiteSpace (rev (dropWhile isWhiteSpace s)))"

text \<open>\<^verbatim>\<open>v || d\<close>\<close>

definition orElse :: "jsval \<Rightarrow> jsval \<Rightarrow> jsval" where
  "orElse v d = (if toBoolean v then v else d)"

text \<open>
  \<^verbatim>\<open>typeof x.id === "string" && x.id ? x.id : newId()\<close>, with the number of identifiers
  produced so far.
\<close>

fun keepOrNewId :: "env \<Rightarrow> nat \<Rightarrow> jsval \<Rightarrow> string \<times> nat" where
  "keepOrNewId E n (JStr s) = (if s \<noteq> [] then (s, n) else (newId E n, Suc n))"
| "keepOrNewId E n v = (newId E n, Suc n)"

text \<open>\<^verbatim>\<open>String(v || "").trim() || fallback\<close>\<close>

definition nameOr :: "env \<Rightarrow> jsval \<Rightarrow> string \<Rightarrow> string" where
  "nameOr E v fallback =
     (let t = trim (toString E (orElse v (JStr []))) in if t \<noteq> [] then t else fallback)"

definition sanitizeBlanket :: "env \<Rightarrow> nat \<Rightarrow> jsval \<Rightarrow> jsval \<times> nat" where
  "sanitizeBlanket E n b =
     (case keepOrNewId E n (getProp b ''id'') of
        (i, n') \<Rightarrow>
          (JObj [(''id'', JStr i),
                 (''name'', JStr (nameOr E (getProp b ''name'') ''Untitled blanket'')),
                 (''notes'', JStr (toString E (orElse (getProp b ''notes'') (JStr []))))],
           n'))"

definition sanitizeCombo :: "env \<Rightarrow> nat \<Rightarrow> jsval \<Rightarrow> jsval \<times> nat" where
  "sanitizeCombo E n c =
     (case keepOrNewId E n (getProp c ''id'') of
        (i, n') \<Rightarrow>
          (JObj [(''id'', JStr i),
                 (''name'', JStr (nameOr E (getProp c ''name'') ''Untitled combo'')),
                 (''blanketIds'',
                    (if isArray (getProp c ''blanketIds'')
                     then JArr (filter isString (arrayOrEmpty (getProp c ''blanketIds'')))
                     else JArr []))],
           n'))"

definition sanitizeCondition :: "env \<Rightarrow> jsval \<Rightarrow> jsval" where
  "sanitizeCondition E c =
     JObj [(''field'', JStr (toString E (orElse (getProp c ''field'') (JStr [])))),
           (''op'', JStr (toString E (orElse (getProp c ''op'') (JStr [])))),
           (''value'', getProp c ''value'')]"

definition sanitizeRule :: "env \<Rightarrow> nat \<Rightarrow> jsval \<Rightarrow> jsval \<times> nat" where
  "sanitizeRule E n r =
     (case keepOrNewId E n (getProp r ''id'') of
        (i, n') \<Rightarrow>
          (JObj [(''id'', JStr i),
                 (''name'', JStr (toString E (orElse (getProp r ''name'') (JStr [])))),
                 (''comboId'', (if isString (getProp r ''comboId'') then getProp r ''comboId''
                                else JStr [])),
                 (''conditions'',
                    (if isArray (getProp r ''conditions'')
                     then JArr (map (sanitizeCondition E)
                                  (filter isObjectLike (arrayOrEmpty (getProp r ''conditions''))))
                     else JArr []))],
           n'))"

text \<open>\<^verbatim>\<open>xs.map(f)\<close> for a callback that may call \<^verbatim>\<open>newId()\<close>: the elements in order.\<close>

fun mapWithIds :: "(nat \<Rightarrow> jsval \<Rightarrow> jsval \<times> nat) \<Rightarrow> nat \<Rightarrow> jsval list \<Rightarrow> jsval list \<times> nat" where
  "mapWithIds f n [] = ([], n)"
| "mapWithIds f n (x # xs) =
     (case f n x of
        (y, n1) \<Rightarrow> (case mapWithIds f n1 xs of (ys, n2) \<Rightarrow> (y # ys, n2)))"

definition sanitizeImportedData :: "env \<Rightarrow> nat \<Rightarrow> jsval \<Rightarrow> error + dataset \<times> nat" where
  "sanitizeImportedData E n raw =
     (if \<not> isObjectLike raw then Inl InvalidJsonObject
      else
        let blankets0 = arrayOrEmpty (getProp raw ''blankets'');
            combos0 = arrayOrEmpty (getProp raw ''combos'');
            rules0 = arrayOrEmpty (getProp raw ''rules'');
            defaultComboId0 = (case getProp raw ''defaultComboId'' of JStr d \<Rightarrow> d | _ \<Rightarrow> []);
            lastForecast0 = (if isObjectLike (getProp raw ''lastForecast'')
                             then getProp raw ''lastForecast'' else JNull)
        in case mapWithIds (sanitizeBlanket E) n (filter isObjectLike blankets0) of
             (bs, n1) \<Rightarrow>
               (case mapWithIds (sanitizeCombo E) n1 (filter isObjectLike combos0) of
                  (cs, n2) \<Rightarrow>
                    (case mapWithIds (sanitizeRule E) n2 (filter isObjectLike rules0) of
                       (rs, n3) \<Rightarrow>
                         Inr (emptyData \<lparr> blankets := bs, combos := cs, rules := rs,
                                          defaultComboId := defaultComboId0,
                                          lastForecast := lastForecast0 \<rparr>, n3))))"

text \<open>
  \<^verbatim>\<open>importData(raw)\<close>, up to \<^verbatim>\<open>saveData\<close>; what follows resets the forms and renders the page.
\<close>

definition importData :: "env \<Rightarrow> jsval \<Rightarrow> app_state \<Rightarrow> error option \<times> app_state" where
  "importData E raw s =
     (case sanitizeImportedData E (idsIssued s) raw of
        Inl e \<Rightarrow> (Some e, s)
      | Inr (d, n) \<Rightarrow> (None, saveData E (s\<lparr> data := d, idsIssued := n \<rparr>)))"

section \<open>Example data\<close>

text \<open>
  An environment for the examples: the local zone is UTC, a timestamp is a number of
  milliseconds (\<^verbatim>\<open>new Date(n).getTime()\<close> is \<open>n\<close> with its fraction cut off, within the
  range of \<^verbatim>\<open>Date\<close>), and identifiers are numbered. The examples convert no string to a
  number or to a date and no number to a string, and they do not depend on the text
  that \<^verbatim>\<open>JSON.stringify\<close> produces.
\<close>

definition exampleEnv :: env where
  "exampleEnv =
     \<lparr> numberToString = (\<lambda>n. ''NaN''),
       stringToNumber = (\<lambda>s. NaN),
       dateTime = (\<lambda>v. case v of
                         JNum (Fin r) \<Rightarrow>
                           if \<bar>r\<bar> \<le> 8640000000000000
                           then Some (if r \<ge> 0 then \<lfloor>r\<rfloor> else \<lceil>r\<rceil>) else None
                       | _ \<Rightarrow> None),
       localTime = (\<lambda>t. t),
       utcTime = (\<lambda>t. t),
       newId = (\<lambda>n. ''id_'' @ decimal n),
       stringify = (\<lambda>d. ''{}'') \<rparr>"

definition number :: "rat \<Rightarrow> jsval" where
  "number r = JNum (Fin r)"


definition lightCombo :: jsval where
  "lightCombo = JObj [(''id'', JStr ''c1''), (''name'', JStr ''Light''), (''blanketIds'', JArr [JStr ''b1''])]"

definition heavyCombo :: jsval where
  "heavyCombo = JObj [(''id'', JStr ''c2''), (''name'', JStr ''Heavy''), (''blanketIds'', JArr [JStr ''b1'', JStr ''b2''])]"

definition coldRule :: jsval where
  "coldRule =
     JObj [(''id'', JStr ''r1''), (''name'', JStr ''Cold''), (''comboId'', JStr ''c2''),
           (''conditions'', JArr [JObj [(''field'', JStr ''minTempF''), (''op'', JStr ''<=''), (''value'', number 40)]])]"

definition catchAllRule :: jsval where
  "catchAllRule =
     JObj [(''id'', JStr ''r2''), (''name'', JStr ''Always''), (''comboId'', JStr ''c1''),
           (''conditions'', JArr [])]"


definition exampleBlankets :: "jsval list" where
  "exampleBlankets =
     [JObj [(''id'', JStr ''b1''), (''name'', JStr ''Sheet''), (''notes'', JStr [])],
      JObj [(''id'', JStr ''b2''), (''name'', JStr ''Heavy''), (''notes'', JStr [])]]"

definition exampleData :: dataset where
  "exampleData =
     \<lparr> version = 1, blankets = exampleBlankets, combos = [lightCombo, heavyCombo],
       rules = [coldRule, catchAllRule], defaultComboId = ''c1'', lastForecast = JNull \<rparr>"



definition exampleHourly :: "rat \<Rightarrow> jsval" where
  "exampleHourly p =
     JObj [(''time'', JArr [number 10, number 20, number 200]),
           (''temperature_2m'', JArr [number 41, JNull, number 20]),
           (''apparent_temperature'', JArr [number 38, number 36, number 10]),
           (''precipitation_probability'', JArr [number 30, number p, number 90]),
           (''windspeed_10m'', JArr [JNull, JStr ''n/a'', number 5])]"

definition exampleState :: app_state where
  "exampleState = \<lparr> data = exampleData, storage = Map.empty, idsIssued = 0 \<rparr>"



section \<open>Facts about property reads\<close>

lemma readProp_nonnull:
  "v \<noteq> JNull \<Longrightarrow> v \<noteq> JUndefined \<Longrightarrow> readProp v k = Inr (getProp v k)"
  by (cases v) simp_all



lemma getProp_string_truthy: "getProp c k = JStr d \<Longrightarrow> toBoolean c"
  by (cases c) (auto split: if_splits option.splits)

section \<open>Facts about rule matching\<close>






section \<open>Facts about the recommendation\<close>




lemma find_Some_in: "find P xs = Some x \<Longrightarrow> x \<in> set xs \<and> P x"
  by (induction xs) (auto split: if_splits)






section \<open>The first matching rule wins\<close>






section \<open>A matching rule with a dangling combo reference\<close>





section \<open>Conditions that cannot hold\<close>







text \<open>
  The snapshot must not be \<^verbatim>\<open>null\<close>: \<^verbatim>\<open>state.weather.metrics\<close> starts as \<^verbatim>\<open>null\<close>, and
  \<^verbatim>\<open>renderRecommendation\<close> returns before it calls \<^verbatim>\<open>pickRecommendation\<close> in that case. On
  \<^verbatim>\<open>null\<close> the read of the metric of a condition throws.
\<close>

lemma ruleMatches_null_metrics: "ruleMatches E coldRule JNull = Inl TypeError"
  by (simp add: ruleMatches_def coldRule_def condHolds_def)

section \<open>Facts about the metric reduction\<close>

lemma inWindow_Some: "inWindow ms (Some s) (Some e) \<longleftrightarrow> s \<le> ms \<and> ms < e"
  by (simp add: inWindow_def)

lemma indicesLoop_filter:
  "indicesLoop E timesArr ws we i acc =
     acc @ filter (\<lambda>j. case dateTime E (timesArr ! j) of
                           None \<Rightarrow> False
                         | Some ms \<Rightarrow> inWindow ms ws we) [i ..< length timesArr]"
proof (induction E timesArr ws we i acc rule: indicesLoop.induct)
  case (1 E timesArr ws we i acc)
  show ?case
  proof (cases "i < length timesArr")
    case False
    then show ?thesis by (simp add: indicesLoop.simps)
  next
    case True
    then have upt: "[i ..< length timesArr] = i # [i + 1 ..< length timesArr]"
      by (simp add: upt_conv_Cons)
    show ?thesis
    proof (cases "dateTime E (timesArr ! i)")
      case None
      with True "1.IH"(1) show ?thesis
        by (subst indicesLoop.simps) (simp add: upt)
    next
      case (Some ms)
      show ?thesis
      proof (cases "inWindow ms ws we")
        case inside: True
        with True Some "1.IH"(2) show ?thesis
          by (subst indicesLoop.simps) (simp add: upt)
      next
        case outside: False
        with True Some "1.IH"(3) show ?thesis
          by (subst indicesLoop.simps) (simp add: upt)
      qed
    qed
  qed
qed

lemma single_reading_finite: "finite {r. v = JNum (Fin r)}"
proof (cases "\<exists>x. v = JNum (Fin x)")
  case True
  then obtain x where "v = JNum (Fin x)" by blast
  then have "{r. v = JNum (Fin r)} = {x}" by auto
  then show ?thesis by simp
next
  case False
  then have "{r. v = JNum (Fin r)} = {}" by auto
  then show ?thesis by simp
qed

lemma readings_Cons:
  "{r. \<exists>i\<in>set (j # idxs). elemAt arr i = JNum (Fin r)}
     = {r. elemAt arr j = JNum (Fin r)} \<union> {r. \<exists>i\<in>set idxs. elemAt arr i = JNum (Fin r)}"
  by auto

lemma readings_finite: "finite {r. \<exists>i\<in>set idxs. elemAt arr i = JNum (Fin r)}"
proof (induction idxs)
  case Nil
  show ?case by simp
next
  case (Cons j idxs)
  show ?case
    unfolding readings_Cons using Cons.IH single_reading_finite by simp
qed

lemma pickMinLoop_None:
  "pickMinLoop arr best idxs = None \<longleftrightarrow>
     best = None \<and> {r. \<exists>i\<in>set idxs. elemAt arr i = JNum (Fin r)} = {}"
  by (induction idxs arbitrary: best) (auto split: jsval.splits jsnum.splits)

lemma pickMinLoop_Some:
  "pickMinLoop arr best idxs = Some v \<Longrightarrow>
     v \<in> {r. \<exists>i\<in>set idxs. elemAt arr i = JNum (Fin r)} \<union> set_option best
     \<and> (\<forall>r \<in> {r. \<exists>i\<in>set idxs. elemAt arr i = JNum (Fin r)} \<union> set_option best. v \<le> r)"
proof (induction idxs arbitrary: best)
  case Nil
  then show ?case by simp
next
  case (Cons i rest)
  show ?case
  proof (cases "\<exists>x. elemAt arr i = JNum (Fin x)")
    case False
    then have "pickMinLoop arr best (i # rest) = pickMinLoop arr best rest"
      by (auto split: jsval.splits jsnum.splits)
    with Cons.prems Cons.IH [of best] False show ?thesis by auto
  next
    case True
    then obtain x where x: "elemAt arr i = JNum (Fin x)" by blast
    show ?thesis
    proof (cases "best = None \<or> x < the best")
      case True
      with x Cons.prems have "pickMinLoop arr (Some x) rest = Some v" by simp
      from Cons.IH [OF this] x True show ?thesis by (cases best) auto
    next
      case False
      with x Cons.prems have "pickMinLoop arr best rest = Some v" by simp
      from Cons.IH [OF this] x False show ?thesis by (cases best) auto
    qed
  qed
qed

lemma pickMaxLoop_None:
  "pickMaxLoop arr best idxs = None \<longleftrightarrow>
     best = None \<and> {r. \<exists>i\<in>set idxs. elemAt arr i = JNum (Fin r)} = {}"
  by (induction idxs arbitrary: best) (auto split: jsval.splits jsnum.splits)

lemma pickMaxLoop_Some:
  "pickMaxLoop arr best idxs = Some v \<Longrightarrow>
     v \<in> {r. \<exists>i\<in>set idxs. elemAt arr i = JNum (Fin r)} \<union> set_option best
     \<and> (\<forall>r \<in> {r. \<exists>i\<in>set idxs. elemAt arr i = JNum (Fin r)} \<union> set_option best. r \<le> v)"
proof (induction idxs arbitrary: best)
  case Nil
  then show ?case by simp
next
  case (Cons i rest)
  show ?case
  proof (cases "\<exists>x. elemAt arr i = JNum (Fin x)")
    case False
    then have "pickMaxLoop arr best (i # rest) = pickMaxLoop arr best rest"
      by (auto split: jsval.splits jsnum.splits)
    with Cons.prems Cons.IH [of best] False show ?thesis by auto
  next
    case True
    then obtain x where x: "elemAt arr i = JNum (Fin x)" by blast
    show ?thesis
    proof (cases "best = None \<or> x > the best")
      case True
      with x Cons.prems have "pickMaxLoop arr (Some x) rest = Some v" by simp
      from Cons.IH [OF this] x True show ?thesis by (cases best) auto
    next
      case False
      with x Cons.prems have "pickMaxLoop arr best rest = Some v" by simp
      from Cons.IH [OF this] x False show ?thesis by (cases best) auto
    qed
  qed
qed

lemma elemAt_readings:
  "{r. \<exists>i\<in>set idxs. elemAt arr i = JNum (Fin r)}
     = {r. \<exists>i\<in>set idxs. i < length arr \<and> arr ! i = JNum (Fin r)}"
  by (auto simp: elemAt_def split: if_splits)

lemma pickMin_spec:
  "numberOrNull (pickMin idxs arr) =
     (if {r. \<exists>i\<in>set idxs. i < length arr \<and> arr ! i = JNum (Fin r)} = {} then JNull
      else JNum (Fin (Min {r. \<exists>i\<in>set idxs. i < length arr \<and> arr ! i = JNum (Fin r)})))"
proof (cases "pickMin idxs arr")
  case None
  then show ?thesis
    using pickMinLoop_None [of arr None idxs]
    by (simp add: pickMin_def elemAt_readings)
next
  case (Some v)
  let ?R = "{r. \<exists>i\<in>set idxs. elemAt arr i = JNum (Fin r)}"
  from Some have loop: "pickMinLoop arr None idxs = Some v"
    by (simp add: pickMin_def)
  from pickMinLoop_Some [OF loop] have v: "v \<in> ?R" and low: "\<forall>r\<in>?R. v \<le> r"
    by simp_all
  have "Min ?R = v"
    using readings_finite low v by (intro Min_eqI) auto
  with v Some show ?thesis
    by (auto simp: elemAt_readings [symmetric])
qed

lemma pickMax_spec:
  "numberOrNull (pickMax idxs arr) =
     (if {r. \<exists>i\<in>set idxs. i < length arr \<and> arr ! i = JNum (Fin r)} = {} then JNull
      else JNum (Fin (Max {r. \<exists>i\<in>set idxs. i < length arr \<and> arr ! i = JNum (Fin r)})))"
proof (cases "pickMax idxs arr")
  case None
  then show ?thesis
    using pickMaxLoop_None [of arr None idxs]
    by (simp add: pickMax_def elemAt_readings)
next
  case (Some v)
  let ?R = "{r. \<exists>i\<in>set idxs. elemAt arr i = JNum (Fin r)}"
  from Some have loop: "pickMaxLoop arr None idxs = Some v"
    by (simp add: pickMax_def)
  from pickMaxLoop_Some [OF loop] have v: "v \<in> ?R" and up: "\<forall>r\<in>?R. r \<le> v"
    by simp_all
  have "Max ?R = v"
    using readings_finite up v by (intro Max_eqI) auto
  with v Some show ?thesis
    by (auto simp: elemAt_readings [symmetric])
qed

lemma compute_arrays:
  assumes "optProp hourly ''time'' = JArr timesArr"
    and "optProp hourly ''temperature_2m'' = JArr temps"
    and "optProp hourly ''apparent_temperature'' = JArr feels"
    and "optProp hourly ''precipitation_probability'' = JArr precip"
    and "optProp hourly ''windspeed_10m'' = JArr wind"
  shows "computeTonightMetricsFromHourly E hourly ws we =
     (if indicesLoop E timesArr ws we 0 [] = [] then Inl NoHourlyData
      else Inr (JObj [(''minTempF'', numberOrNull (pickMin (indicesLoop E timesArr ws we 0 []) temps)),
                      (''minFeelsF'', numberOrNull (pickMin (indicesLoop E timesArr ws we 0 []) feels)),
                      (''maxPrecipProb'', numberOrNull (pickMax (indicesLoop E timesArr ws we 0 []) precip)),
                      (''maxWindMph'', numberOrNull (pickMax (indicesLoop E timesArr ws we 0 []) wind)),
                      (''wetRisk'', JBool (case pickMax (indicesLoop E timesArr ws we 0 []) precip of
                                             Some p \<Rightarrow> p \<ge> 50 | None \<Rightarrow> False))]))"
  by (simp add: computeTonightMetricsFromHourly_def Let_def assms)

section \<open>Minimum and maximum over the window\<close>

text \<open>
  Claim C4. For an hourly object with its five arrays and a window that selects at least
  one index, \<^verbatim>\<open>computeTonightMetricsFromHourly\<close> returns a metrics object. Each of
  \<^verbatim>\<open>minTempF\<close> and \<^verbatim>\<open>minFeelsF\<close> is the minimum, and each of \<^verbatim>\<open>maxPrecipProb\<close> and \<^verbatim>\<open>maxWindMph\<close>
  the maximum, of the readings of its series at the selected indices that are finite
  numbers; readings that are missing (beyond the end of the array), \<^verbatim>\<open>null\<close>, not numbers
  or not finite take no part. When a series has no finite reading at the selected
  indices its metric is \<^verbatim>\<open>null\<close>, and the computation still returns.
\<close>

theorem metrics_skip_missing_readings:
  assumes arrays: "optProp hourly ''time'' = JArr timesArr"
      "optProp hourly ''temperature_2m'' = JArr temps"
      "optProp hourly ''apparent_temperature'' = JArr feels"
      "optProp hourly ''precipitation_probability'' = JArr precip"
      "optProp hourly ''windspeed_10m'' = JArr wind"
    and sel: "indicesLoop E timesArr ws we 0 [] = idxs"
    and nonempty: "idxs \<noteq> []"
  shows "\<exists>m. computeTonightMetricsFromHourly E hourly ws we = Inr m
     \<and> getProp m ''minTempF'' =
         (if {r. \<exists>i\<in>set idxs. i < length temps \<and> temps ! i = JNum (Fin r)} = {} then JNull
          else JNum (Fin (Min {r. \<exists>i\<in>set idxs. i < length temps \<and> temps ! i = JNum (Fin r)})))
     \<and> getProp m ''minFeelsF'' =
         (if {r. \<exists>i\<in>set idxs. i < length feels \<and> feels ! i = JNum (Fin r)} = {} then JNull
          else JNum (Fin (Min {r. \<exists>i\<in>set idxs. i < length feels \<and> feels ! i = JNum (Fin r)})))
     \<and> getProp m ''maxPrecipProb'' =
         (if {r. \<exists>i\<in>set idxs. i < length precip \<and> precip ! i = JNum (Fin r)} = {} then JNull
          else JNum (Fin (Max {r. \<exists>i\<in>set idxs. i < length precip \<and> precip ! i = JNum (Fin r)})))
     \<and> getProp m ''maxWindMph'' =
         (if {r. \<exists>i\<in>set idxs. i < length wind \<and> wind ! i = JNum (Fin r)} = {} then JNull
          else JNum (Fin (Max {r. \<exists>i\<in>set idxs. i < length wind \<and> wind ! i = JNum (Fin r)})))"
proof -
  let ?m = "JObj [(''minTempF'', numberOrNull (pickMin idxs temps)),
                  (''minFeelsF'', numberOrNull (pickMin idxs feels)),
                  (''maxPrecipProb'', numberOrNull (pickMax idxs precip)),
                  (''maxWindMph'', numberOrNull (pickMax idxs wind)),
                  (''wetRisk'', JBool (case pickMax idxs precip of
                                         Some p \<Rightarrow> p \<ge> 50 | None \<Rightarrow> False))]"
  have res: "computeTonightMetricsFromHourly E hourly ws we = Inr ?m"
    using nonempty by (simp add: compute_arrays [OF arrays] sel)
  have a: "getProp ?m ''minTempF'' = numberOrNull (pickMin idxs temps)" by simp
  have b: "getProp ?m ''minFeelsF'' = numberOrNull (pickMin idxs feels)" by simp
  have c: "getProp ?m ''maxPrecipProb'' = numberOrNull (pickMax idxs precip)" by simp
  have d: "getProp ?m ''maxWindMph'' = numberOrNull (pickMax idxs wind)" by simp
  show ?thesis
    unfolding pickMin_spec [symmetric] pickMax_spec [symmetric]
    using res a b c d by blast
qed

lemma exampleHourly_arrays:
  "optProp (exampleHourly p) ''time'' = JArr [number 10, number 20, number 200]"
  "optProp (exampleHourly p) ''temperature_2m'' = JArr [number 41, JNull, number 20]"
  "optProp (exampleHourly p) ''apparent_temperature'' = JArr [number 38, number 36, number 10]"
  "optProp (exampleHourly p) ''precipitation_probability'' = JArr [number 30, number p, number 90]"
  "optProp (exampleHourly p) ''windspeed_10m'' = JArr [JNull, JStr ''n/a'', number 5]"
  by (simp_all add: exampleHourly_def optProp_def)

lemma example_dateTime: "dateTime exampleEnv (number 10) = Some 10"
  "dateTime exampleEnv (number 20) = Some 20" "dateTime exampleEnv (number 200) = Some 200"
  by (simp_all add: exampleEnv_def number_def)

lemma example_indices:
  "indicesLoop exampleEnv [number 10, number 20, number 200] (Some 0) (Some 100) 0 [] = [0, 1]"
  by (simp add: indicesLoop_filter upt_rec [of 0] upt_rec [of 1] upt_rec [of 2] upt_rec [of 3]
      example_dateTime inWindow_def)

theorem metrics_skip_missing_readings_witness:
  "indicesLoop exampleEnv [number 10, number 20, number 200] (Some 0) (Some 100) 0 [] = [0, 1]
   \<and> (\<exists>m. computeTonightMetricsFromHourly exampleEnv (exampleHourly 50) (Some 0) (Some 100) = Inr m
        \<and> getProp m ''minTempF'' = number 41
        \<and> getProp m ''minFeelsF'' = number 36
        \<and> getProp m ''maxPrecipProb'' = number 50
        \<and> getProp m ''maxWindMph'' = JNull)"
proof -
  have nonempty: "[0, 1 :: nat] \<noteq> []" by simp
  have t: "{r. \<exists>i\<in>set [0, 1 :: nat]. i < length [number 41, JNull, number 20]
                 \<and> [number 41, JNull, number 20] ! i = JNum (Fin r)} = {41}"
    by (auto simp: number_def)
  have f: "{r. \<exists>i\<in>set [0, 1 :: nat]. i < length [number 38, number 36, number 10]
                 \<and> [number 38, number 36, number 10] ! i = JNum (Fin r)} = {38, 36}"
    by (auto simp: number_def)
  have p: "{r. \<exists>i\<in>set [0, 1 :: nat]. i < length [number 30, number 50, number 90]
                 \<and> [number 30, number 50, number 90] ! i = JNum (Fin r)} = {30, 50}"
    by (auto simp: number_def)
  have w: "{r. \<exists>i\<in>set [0, 1 :: nat]. i < length [JNull, JStr ''n/a'', number 5]
                 \<and> [JNull, JStr ''n/a'', number 5] ! i = JNum (Fin r)} = {}"
    by (auto simp: number_def)
  from metrics_skip_missing_readings [OF exampleHourly_arrays [where p = 50] example_indices nonempty]
  have "\<exists>m. computeTonightMetricsFromHourly exampleEnv (exampleHourly 50) (Some 0) (Some 100) = Inr m
        \<and> getProp m ''minTempF'' = number 41
        \<and> getProp m ''minFeelsF'' = number 36
        \<and> getProp m ''maxPrecipProb'' = number 50
        \<and> getProp m ''maxWindMph'' = JNull"
    unfolding t f p w by (simp add: number_def)
  with example_indices show ?thesis by (rule conjI)
qed

section \<open>An empty window is an error\<close>

text \<open>
  Claim C5. For an hourly object with its five arrays in which no timestamp that parses
  passes the window test, \<^verbatim>\<open>computeTonightMetricsFromHourly\<close> throws the error
  \<^verbatim>\<open>No hourly data found for the tonight window\<close>; it returns no metrics.
\<close>

theorem empty_window_is_error:
  assumes arrays: "optProp hourly ''time'' = JArr timesArr"
      "optProp hourly ''temperature_2m'' = JArr temps"
      "optProp hourly ''apparent_temperature'' = JArr feels"
      "optProp hourly ''precipitation_probability'' = JArr precip"
      "optProp hourly ''windspeed_10m'' = JArr wind"
    and outside: "\<forall>i<length timesArr. \<forall>ms. dateTime E (timesArr ! i) = Some ms
                    \<longrightarrow> \<not> inWindow ms windowStart windowEnd"
  shows "computeTonightMetricsFromHourly E hourly windowStart windowEnd = Inl NoHourlyData"
proof -
  have "filter (\<lambda>j. case dateTime E (timesArr ! j) of
                           None \<Rightarrow> False
                         | Some ms \<Rightarrow> inWindow ms windowStart windowEnd) [0 ..< length timesArr] = []"
    using outside by (auto simp: filter_empty_conv split: option.splits)
  then have "indicesLoop E timesArr windowStart windowEnd 0 [] = []"
    by (simp add: indicesLoop_filter)
  then show ?thesis
    by (simp add: compute_arrays [OF arrays])
qed

theorem empty_window_is_error_witness:
  "list_all (\<lambda>t. case dateTime exampleEnv t of
                    None \<Rightarrow> True | Some ms \<Rightarrow> \<not> inWindow ms (Some 1000) (Some 2000))
            [number 10, number 20, number 200]
   \<and> computeTonightMetricsFromHourly exampleEnv (exampleHourly 50) (Some 1000) (Some 2000)
       = Inl NoHourlyData"
proof -
  have outside: "\<forall>i<length [number 10, number 20, number 200]. \<forall>ms.
           dateTime exampleEnv ([number 10, number 20, number 200] ! i) = Some ms
           \<longrightarrow> \<not> inWindow ms (Some 1000) (Some 2000)"
    by (auto simp: nth_Cons' example_dateTime inWindow_def split: if_splits)
  from empty_window_is_error [OF exampleHourly_arrays [where p = 50] outside]
  show ?thesis
    by (simp add: example_dateTime inWindow_def)
qed

section \<open>The wet risk flag\<close>

text \<open>
  Claim C6. In every metrics object that \<^verbatim>\<open>computeTonightMetricsFromHourly\<close> returns,
  \<^verbatim>\<open>wetRisk\<close> is a boolean, and it is \<^verbatim>\<open>true\<close> exactly when \<^verbatim>\<open>maxPrecipProb\<close> is a number that
  is at least 50: \<^verbatim>\<open>true\<close> at 50, \<^verbatim>\<open>false\<close> at 49.
\<close>

theorem wetRisk_threshold:
  assumes "computeTonightMetricsFromHourly E hourly windowStart windowEnd = Inr m"
  shows "(\<exists>b. getProp m ''wetRisk'' = JBool b)
       \<and> (getProp m ''wetRisk'' = JBool True
            \<longleftrightarrow> (\<exists>p. getProp m ''maxPrecipProb'' = JNum (Fin p) \<and> 50 \<le> p))
       \<and> (getProp m ''maxPrecipProb'' = JNum (Fin 50) \<longrightarrow> getProp m ''wetRisk'' = JBool True)
       \<and> (getProp m ''maxPrecipProb'' = JNum (Fin 49) \<longrightarrow> getProp m ''wetRisk'' = JBool False)"
proof -
  let ?idxs = "indicesLoop E (arrayOrEmpty (optProp hourly ''time'')) windowStart windowEnd 0 []"
  let ?maxP = "pickMax ?idxs (arrayOrEmpty (optProp hourly ''precipitation_probability''))"
  from assms have wet: "getProp m ''wetRisk'' = JBool (case ?maxP of Some p \<Rightarrow> p \<ge> 50 | None \<Rightarrow> False)"
    and mp: "getProp m ''maxPrecipProb'' = numberOrNull ?maxP"
    by (auto simp: computeTonightMetricsFromHourly_def Let_def split: if_splits)
  show ?thesis
    unfolding wet mp by (cases ?maxP) auto
qed

lemma example_compute:
  "computeTonightMetricsFromHourly exampleEnv (exampleHourly p) (Some 0) (Some 100) =
     Inr (JObj [(''minTempF'', number 41), (''minFeelsF'', number 36),
                (''maxPrecipProb'', number (max 30 p)), (''maxWindMph'', JNull),
                (''wetRisk'', JBool (50 \<le> max 30 p))])"
  unfolding compute_arrays [OF exampleHourly_arrays] example_indices
  by (simp add: pickMin_def pickMax_def elemAt_def number_def max_def)

theorem wetRisk_threshold_witness:
  "(\<exists>m. computeTonightMetricsFromHourly exampleEnv (exampleHourly 50) (Some 0) (Some 100) = Inr m
        \<and> getProp m ''maxPrecipProb'' = number 50 \<and> getProp m ''wetRisk'' = JBool True)
   \<and> (\<exists>m. computeTonightMetricsFromHourly exampleEnv (exampleHourly 49) (Some 0) (Some 100) = Inr m
        \<and> getProp m ''maxPrecipProb'' = number 49 \<and> getProp m ''wetRisk'' = JBool False)"
proof -
  let ?m50 = "JObj [(''minTempF'', number 41), (''minFeelsF'', number 36),
                (''maxPrecipProb'', number (max 30 50)), (''maxWindMph'', JNull),
                (''wetRisk'', JBool (50 \<le> max 30 (50 :: rat)))]"
  let ?m49 = "JObj [(''minTempF'', number 41), (''minFeelsF'', number 36),
                (''maxPrecipProb'', number (max 30 49)), (''maxWindMph'', JNull),
                (''wetRisk'', JBool (50 \<le> max 30 (49 :: rat)))]"
  have p50: "getProp ?m50 ''maxPrecipProb'' = JNum (Fin 50)" by (simp add: number_def)
  have p49: "getProp ?m49 ''maxPrecipProb'' = JNum (Fin 49)" by (simp add: number_def)
  from wetRisk_threshold [OF example_compute [of 50]] p50
  have w50: "getProp ?m50 ''wetRisk'' = JBool True" by blast
  from wetRisk_threshold [OF example_compute [of 49]] p49
  have w49: "getProp ?m49 ''wetRisk'' = JBool False" by blast
  show ?thesis
    using example_compute [of 50] example_compute [of 49] p50 p49 w50 w49
    by (simp add: number_def)
qed

section \<open>The indices of the overnight window\<close>

lemma example_window: "getTonightWindow exampleEnv 0 = (68400000, 118800000)"
  by (simp add: getTonightWindow_def setHours_def setDateToNextDay_def makeTime_def msPerDay_def
      exampleEnv_def Let_def)

lemma example_dateTime_integer:
  "\<bar>of_int n :: rat\<bar> \<le> 8640000000000000 \<Longrightarrow> dateTime exampleEnv (number (of_int n)) = Some n"
  by (simp add: exampleEnv_def number_def)

lemma example_window_times:
  "dateTime exampleEnv (number 68399999) = Some 68399999"
  "dateTime exampleEnv (number 68400000) = Some 68400000"
  "dateTime exampleEnv (number 118799999) = Some 118799999"
  "dateTime exampleEnv (number 118800000) = Some 118800000"
  using example_dateTime_integer [of 68399999] example_dateTime_integer [of 68400000]
    example_dateTime_integer [of 118799999] example_dateTime_integer [of 118800000]
  by simp_all

text \<open>
  Claim C7 says that the indices selected are those with a timestamp from 19:00 through
  09:00 of the next day. The timestamp at 09:00 itself is not selected: with UTC as the
  local zone and \<^verbatim>\<open>now\<close> at time value 0, the window of \<^verbatim>\<open>getTonightWindow\<close> is
  (68400000, 118800000), and of the two timestamps 19:00 and 09:00 only the first is
  selected.
\<close>

theorem window_end_not_selected:
  "getTonightWindow exampleEnv 0 = (68400000, 118800000)
   \<and> dateTime exampleEnv (number 68400000) = Some 68400000
   \<and> dateTime exampleEnv (number 118800000) = Some 118800000
   \<and> indicesLoop exampleEnv [number 68400000, number 118800000]
        (Some 68400000) (Some 118800000) 0 [] = [0]"
proof -
  have "indicesLoop exampleEnv [number 68400000, number 118800000]
        (Some 68400000) (Some 118800000) 0 [] = [0]"
    by (simp add: indicesLoop_filter upt_rec [of 0] upt_rec [of 1] upt_rec [of 2]
        inWindow_def example_window_times)
  with example_window example_window_times show ?thesis by simp
qed

lemma day_of_local:
  assumes "0 \<le> r" "r < msPerDay"
  shows "(d * msPerDay + r) div msPerDay = d" "(d * msPerDay + r) mod msPerDay = r"
  using assms by (simp_all add: msPerDay_def)

lemma makeTime_in_day:
  "0 \<le> makeTime 19 0 0 0" "makeTime 19 0 0 0 < msPerDay"
  by (simp_all add: makeTime_def msPerDay_def)

lemma getTonightWindow_local:
  assumes day: "day = localTime E now div msPerDay"
    and start19: "localTime E (utcTime E (day * msPerDay + makeTime 19 0 0 0))
                    = day * msPerDay + makeTime 19 0 0 0"
    and next19: "localTime E (utcTime E ((day + 1) * msPerDay + makeTime 19 0 0 0))
                    = (day + 1) * msPerDay + makeTime 19 0 0 0"
  shows "getTonightWindow E now =
           (utcTime E (day * msPerDay + makeTime 19 0 0 0),
            utcTime E ((day + 1) * msPerDay + makeTime 9 0 0 0))"
proof -
  have s: "setHours E now 19 0 0 0 = utcTime E (day * msPerDay + makeTime 19 0 0 0)"
    unfolding setHours_def day ..
  have n: "setDateToNextDay E (utcTime E (day * msPerDay + makeTime 19 0 0 0))
             = utcTime E ((day + 1) * msPerDay + makeTime 19 0 0 0)"
    unfolding setDateToNextDay_def start19 day_of_local [OF makeTime_in_day] ..
  have e: "setHours E (utcTime E ((day + 1) * msPerDay + makeTime 19 0 0 0)) 9 0 0 0
             = utcTime E ((day + 1) * msPerDay + makeTime 9 0 0 0)"
    unfolding setHours_def next19 day_of_local [OF makeTime_in_day] ..
  show ?thesis
    unfolding getTonightWindow_def Let_def s n e ..
qed

text \<open>
  Claim C7, amended. Let \<open>day\<close> be the local day of \<^verbatim>\<open>now\<close>, and let 19:00 of that day and
  of the next day be local times that exist (converting them to a time value and back
  gives them again, which fails only inside a gap of a clock change). Then the window of
  \<^verbatim>\<open>getTonightWindow\<close> starts at 19:00 local of the day and ends at 09:00 local of the
  next day, and the indices selected are exactly, in increasing order, those whose
  timestamp parses to a time \<open>ms\<close> with \<open>windowStart \<le> ms < windowEnd\<close>: the start is
  included, the end is not.
\<close>

theorem tonight_indices_half_open:
  assumes day: "day = localTime E now div msPerDay"
    and start19: "localTime E (utcTime E (day * msPerDay + makeTime 19 0 0 0))
                    = day * msPerDay + makeTime 19 0 0 0"
    and next19: "localTime E (utcTime E ((day + 1) * msPerDay + makeTime 19 0 0 0))
                    = (day + 1) * msPerDay + makeTime 19 0 0 0"
    and window: "getTonightWindow E now = (windowStart, windowEnd)"
  shows "windowStart = utcTime E (day * msPerDay + makeTime 19 0 0 0)
       \<and> windowEnd = utcTime E ((day + 1) * msPerDay + makeTime 9 0 0 0)
       \<and> indicesLoop E timesArr (Some windowStart) (Some windowEnd) 0 [] =
           filter (\<lambda>i. \<exists>ms. dateTime E (timesArr ! i) = Some ms
                            \<and> windowStart \<le> ms \<and> ms < windowEnd)
                  [0 ..< length timesArr]"
proof -
  have sel: "indicesLoop E timesArr (Some windowStart) (Some windowEnd) 0 [] =
           filter (\<lambda>i. \<exists>ms. dateTime E (timesArr ! i) = Some ms
                            \<and> windowStart \<le> ms \<and> ms < windowEnd)
                  [0 ..< length timesArr]"
    unfolding indicesLoop_filter
    by (auto intro!: filter_cong simp: inWindow_Some split: option.splits)
  from getTonightWindow_local [OF day start19 next19] window sel
  show ?thesis by simp
qed

theorem tonight_indices_half_open_witness:
  "getTonightWindow exampleEnv 0 = (68400000, 118800000)
   \<and> indicesLoop exampleEnv [number 68399999, number 68400000, number 118799999, number 118800000]
        (Some 68400000) (Some 118800000) 0 [] = [1, 2]"
proof -
  have day: "(0::int) = localTime exampleEnv 0 div msPerDay"
    by (simp add: exampleEnv_def)
  have start19: "localTime exampleEnv (utcTime exampleEnv (0 * msPerDay + makeTime 19 0 0 0))
                    = 0 * msPerDay + makeTime 19 0 0 0"
    by (simp add: exampleEnv_def)
  have next19: "localTime exampleEnv (utcTime exampleEnv ((0 + 1) * msPerDay + makeTime 19 0 0 0))
                    = (0 + 1) * msPerDay + makeTime 19 0 0 0"
    by (simp add: exampleEnv_def)
  from tonight_indices_half_open [OF day start19 next19 example_window,
      of "[number 68399999, number 68400000, number 118799999, number 118800000]"]
  have "indicesLoop exampleEnv [number 68399999, number 68400000, number 118799999, number 118800000]
        (Some 68400000) (Some 118800000) 0 [] = [1, 2]"
    by (simp add: upt_rec [of 0] upt_rec [of 1] upt_rec [of 2] upt_rec [of 3]
        upt_rec [of 4] example_window_times)
  with example_window show ?thesis by simp
qed

section \<open>Facts about the mutations\<close>

lemma map_of_putProp: "map_of (putProp ps k v) = (map_of ps)(k \<mapsto> v)"
  by (induction ps) (auto simp: fun_eq_iff)

lemma findById_nonnull:
  assumes "\<forall>x\<in>set xs. x \<noteq> JNull \<and> x \<noteq> JUndefined"
  shows "findById ident xs =
           Inr (case find (\<lambda>x. getProp x ''id'' = JStr ident) xs of
                  Some x \<Rightarrow> x | None \<Rightarrow> JUndefined)"
  using assms by (induction xs) (simp_all add: readProp_nonnull)

lemma findById_present:
  assumes "\<forall>x\<in>set xs. x \<noteq> JNull \<and> x \<noteq> JUndefined"
    and "\<exists>x\<in>set xs. getProp x ''id'' = JStr ident"
  shows "\<exists>b. findById ident xs = Inr b \<and> toBoolean b"
proof -
  from assms(2) obtain b where b: "find (\<lambda>x. getProp x ''id'' = JStr ident) xs = Some b"
    by (cases "find (\<lambda>x. getProp x ''id'' = JStr ident) xs") (auto simp: find_None_iff)
  from find_Some_in [OF b] have "toBoolean b"
    by (auto intro: getProp_string_truthy)
  with b show ?thesis
    by (simp add: findById_nonnull [OF assms(1)])
qed

lemma rejectById_nonnull:
  assumes "\<forall>x\<in>set xs. x \<noteq> JNull \<and> x \<noteq> JUndefined"
  shows "rejectById ident xs = Inr (filter (\<lambda>x. getProp x ''id'' \<noteq> JStr ident) xs)"
  using assms by (induction xs) (simp_all add: readProp_nonnull)

lemma stripBlanketLoop_objects:
  assumes "\<forall>c\<in>set cs. \<exists>ps. c = JObj ps"
  shows "stripBlanketLoop ident cs =
           (None, map (\<lambda>c. case c of
                          JObj ps \<Rightarrow>
                            JObj (putProp ps ''blanketIds''
                                   (JArr (filter (\<lambda>bid. bid \<noteq> JStr ident)
                                            (arrayOrEmpty (getProp c ''blanketIds'')))))
                        | _ \<Rightarrow> c) cs)"
  using assms
proof (induction cs)
  case Nil
  show ?case by simp
next
  case (Cons c cs)
  then obtain ps where c: "c = JObj ps" by auto
  have v: "(if isArray (getProp c ''blanketIds'')
            then JArr (filter (\<lambda>bid. bid \<noteq> JStr ident) (arrayOrEmpty (getProp c ''blanketIds'')))
            else JArr [])
           = JArr (filter (\<lambda>bid. bid \<noteq> JStr ident) (arrayOrEmpty (getProp c ''blanketIds'')))"
    by (cases "getProp c ''blanketIds''") simp_all
  from Cons have IH: "stripBlanketLoop ident cs =
           (None, map (\<lambda>c. case c of
                          JObj ps \<Rightarrow>
                            JObj (putProp ps ''blanketIds''
                                   (JArr (filter (\<lambda>bid. bid \<noteq> JStr ident)
                                            (arrayOrEmpty (getProp c ''blanketIds'')))))
                        | _ \<Rightarrow> c) cs)"
    by simp
  have r: "readProp c ''blanketIds'' = Inr (getProp c ''blanketIds'')"
    by (simp add: c)
  show ?case
    unfolding stripBlanketLoop.simps r sum.case v
    by (simp add: c IH)
qed

lemma clearComboLoop_objects:
  assumes "\<forall>r\<in>set rs. \<exists>ps. r = JObj ps"
  shows "clearComboLoop ident rs =
           (None, map (\<lambda>r. case r of
                          JObj ps \<Rightarrow>
                            if getProp r ''comboId'' = JStr ident
                            then JObj (putProp ps ''comboId'' (JStr []))
                            else r
                        | _ \<Rightarrow> r) rs)"
  using assms
proof (induction rs)
  case Nil
  show ?case by simp
next
  case (Cons r rs)
  then obtain ps where r: "r = JObj ps" by auto
  from Cons have IH: "clearComboLoop ident rs =
           (None, map (\<lambda>r. case r of
                          JObj ps \<Rightarrow>
                            if getProp r ''comboId'' = JStr ident
                            then JObj (putProp ps ''comboId'' (JStr []))
                            else r
                        | _ \<Rightarrow> r) rs)"
    by simp
  show ?case
    by (simp add: r IH)
qed

lemma objects_nonnull:
  "\<forall>c\<in>set cs. \<exists>ps. c = JObj ps \<Longrightarrow> \<forall>c\<in>set cs. c \<noteq> JNull \<and> c \<noteq> JUndefined"
  by auto

lemma deleteBlanket_result:
  assumes bl: "\<forall>b\<in>set (blankets (data s)). b \<noteq> JNull \<and> b \<noteq> JUndefined"
    and co: "\<forall>c\<in>set (combos (data s)). \<exists>ps. c = JObj ps"
    and present: "\<exists>b\<in>set (blankets (data s)). getProp b ''id'' = JStr ident"
  shows "deleteBlanket E ident True s =
     (None, saveData E (s\<lparr> data := (data s)\<lparr>
        blankets := filter (\<lambda>x. getProp x ''id'' \<noteq> JStr ident) (blankets (data s)),
        combos := map (\<lambda>c. case c of
                          JObj ps \<Rightarrow>
                            JObj (putProp ps ''blanketIds''
                                   (JArr (filter (\<lambda>bid. bid \<noteq> JStr ident)
                                            (arrayOrEmpty (getProp c ''blanketIds'')))))
                        | _ \<Rightarrow> c) (combos (data s)) \<rparr> \<rparr>))"
proof -
  from findById_present [OF bl present] obtain b
    where b: "findById ident (blankets (data s)) = Inr b" "toBoolean b" by blast
  show ?thesis
    by (simp add: deleteBlanket_def b rejectById_nonnull [OF bl] stripBlanketLoop_objects [OF co])
qed

lemma deleteCombo_result:
  assumes co: "\<forall>c\<in>set (combos (data s)). c \<noteq> JNull \<and> c \<noteq> JUndefined"
    and ru: "\<forall>r\<in>set (rules (data s)). \<exists>ps. r = JObj ps"
    and present: "\<exists>c\<in>set (combos (data s)). getProp c ''id'' = JStr ident"
  shows "deleteCombo E ident True s =
     (None, saveData E (s\<lparr> data := (data s)\<lparr>
        combos := filter (\<lambda>x. getProp x ''id'' \<noteq> JStr ident) (combos (data s)),
        rules := map (\<lambda>r. case r of
                          JObj ps \<Rightarrow>
                            if getProp r ''comboId'' = JStr ident
                            then JObj (putProp ps ''comboId'' (JStr []))
                            else r
                        | _ \<Rightarrow> r) (rules (data s)),
        defaultComboId := (if defaultComboId (data s) = ident then []
                           else defaultComboId (data s)) \<rparr> \<rparr>))"
proof -
  from findById_present [OF co present] obtain c
    where c: "findById ident (combos (data s)) = Inr c" "toBoolean c" by blast
  show ?thesis
    by (simp add: deleteCombo_def c rejectById_nonnull [OF co] clearComboLoop_objects [OF ru])
qed

lemma saveData_data: "data (saveData E s) = data s"
  by (simp add: saveData_def)

section \<open>Deleting a blanket, deleting a combo\<close>

text \<open>
  Claim C8. In a data store whose blankets are not \<^verbatim>\<open>null\<close> and whose combos and rules are
  objects, with the user confirming:
  \<^item> deleting an existing blanket removes the blankets with its id, keeps every combo in
    its place, takes the id out of the \<^verbatim>\<open>blanketIds\<close> of every combo and changes no other
    property of a combo, no rule and not the default combo;
  \<^item> deleting an existing combo removes the combos with its id, empties \<^verbatim>\<open>defaultComboId\<close>
    when it was that id, sets the \<^verbatim>\<open>comboId\<close> of every rule that had that id to the empty
    string without changing another property of the rule, and leaves every other rule
    and all blankets as they were.
\<close>

theorem delete_frame:
  assumes bl: "\<forall>b\<in>set (blankets (data s)). b \<noteq> JNull \<and> b \<noteq> JUndefined"
    and co: "\<forall>c\<in>set (combos (data s)). \<exists>ps. c = JObj ps"
    and ru: "\<forall>r\<in>set (rules (data s)). \<exists>ps. r = JObj ps"
  shows
    "((\<exists>b\<in>set (blankets (data s)). getProp b ''id'' = JStr ident) \<longrightarrow>
        (\<exists>s'. deleteBlanket E ident True s = (None, s')
          \<and> blankets (data s') = filter (\<lambda>b. getProp b ''id'' \<noteq> JStr ident) (blankets (data s))
          \<and> length (combos (data s')) = length (combos (data s))
          \<and> (\<forall>i<length (combos (data s)).
                arrayOrEmpty (getProp (combos (data s') ! i) ''blanketIds'')
                  = filter (\<lambda>x. x \<noteq> JStr ident)
                      (arrayOrEmpty (getProp (combos (data s) ! i) ''blanketIds''))
              \<and> JStr ident \<notin> set (arrayOrEmpty (getProp (combos (data s') ! i) ''blanketIds''))
              \<and> (\<forall>k. k \<noteq> ''blanketIds'' \<longrightarrow>
                     getProp (combos (data s') ! i) k = getProp (combos (data s) ! i) k))
          \<and> rules (data s') = rules (data s)
          \<and> defaultComboId (data s') = defaultComboId (data s)))
   \<and> ((\<exists>c\<in>set (combos (data s)). getProp c ''id'' = JStr ident) \<longrightarrow>
        (\<exists>s'. deleteCombo E ident True s = (None, s')
          \<and> combos (data s') = filter (\<lambda>c. getProp c ''id'' \<noteq> JStr ident) (combos (data s))
          \<and> defaultComboId (data s') =
               (if defaultComboId (data s) = ident then [] else defaultComboId (data s))
          \<and> length (rules (data s')) = length (rules (data s))
          \<and> (\<forall>i<length (rules (data s)).
                (getProp (rules (data s) ! i) ''comboId'' = JStr ident \<longrightarrow>
                   getProp (rules (data s') ! i) ''comboId'' = JStr []
                   \<and> (\<forall>k. k \<noteq> ''comboId'' \<longrightarrow>
                          getProp (rules (data s') ! i) k = getProp (rules (data s) ! i) k))
              \<and> (getProp (rules (data s) ! i) ''comboId'' \<noteq> JStr ident \<longrightarrow>
                   rules (data s') ! i = rules (data s) ! i))
          \<and> blankets (data s') = blankets (data s)))"
proof (intro conjI impI)
  assume present: "\<exists>b\<in>set (blankets (data s)). getProp b ''id'' = JStr ident"
  let ?strip = "\<lambda>c. case c of
                          JObj ps \<Rightarrow>
                            JObj (putProp ps ''blanketIds''
                                   (JArr (filter (\<lambda>bid. bid \<noteq> JStr ident)
                                            (arrayOrEmpty (getProp c ''blanketIds'')))))
                        | _ \<Rightarrow> c"
  let ?s' = "saveData E (s\<lparr> data := (data s)\<lparr>
        blankets := filter (\<lambda>x. getProp x ''id'' \<noteq> JStr ident) (blankets (data s)),
        combos := map ?strip (combos (data s)) \<rparr> \<rparr>)"
  have res: "deleteBlanket E ident True s = (None, ?s')"
    by (rule deleteBlanket_result [OF bl co present])
  have each: "\<forall>i<length (combos (data s)).
                arrayOrEmpty (getProp (combos (data ?s') ! i) ''blanketIds'')
                  = filter (\<lambda>x. x \<noteq> JStr ident)
                      (arrayOrEmpty (getProp (combos (data s) ! i) ''blanketIds''))
              \<and> JStr ident \<notin> set (arrayOrEmpty (getProp (combos (data ?s') ! i) ''blanketIds''))
              \<and> (\<forall>k. k \<noteq> ''blanketIds'' \<longrightarrow>
                     getProp (combos (data ?s') ! i) k = getProp (combos (data s) ! i) k)"
  proof (intro allI impI)
    fix i assume i: "i < length (combos (data s))"
    then have "combos (data s) ! i \<in> set (combos (data s))" by simp
    with co obtain ps where ps: "combos (data s) ! i = JObj ps" by blast
    have new: "combos (data ?s') ! i =
            JObj (putProp ps ''blanketIds''
                   (JArr (filter (\<lambda>bid. bid \<noteq> JStr ident)
                            (arrayOrEmpty (getProp (JObj ps) ''blanketIds'')))))"
      using i by (simp add: saveData_data ps)
    show "arrayOrEmpty (getProp (combos (data ?s') ! i) ''blanketIds'')
                  = filter (\<lambda>x. x \<noteq> JStr ident)
                      (arrayOrEmpty (getProp (combos (data s) ! i) ''blanketIds''))
              \<and> JStr ident \<notin> set (arrayOrEmpty (getProp (combos (data ?s') ! i) ''blanketIds''))
              \<and> (\<forall>k. k \<noteq> ''blanketIds'' \<longrightarrow>
                     getProp (combos (data ?s') ! i) k = getProp (combos (data s) ! i) k)"
      unfolding new ps by (simp add: map_of_putProp)
  qed
  show "\<exists>s'. deleteBlanket E ident True s = (None, s')
          \<and> blankets (data s') = filter (\<lambda>b. getProp b ''id'' \<noteq> JStr ident) (blankets (data s))
          \<and> length (combos (data s')) = length (combos (data s))
          \<and> (\<forall>i<length (combos (data s)).
                arrayOrEmpty (getProp (combos (data s') ! i) ''blanketIds'')
                  = filter (\<lambda>x. x \<noteq> JStr ident)
                      (arrayOrEmpty (getProp (combos (data s) ! i) ''blanketIds''))
              \<and> JStr ident \<notin> set (arrayOrEmpty (getProp (combos (data s') ! i) ''blanketIds''))
              \<and> (\<forall>k. k \<noteq> ''blanketIds'' \<longrightarrow>
                     getProp (combos (data s') ! i) k = getProp (combos (data s) ! i) k))
          \<and> rules (data s') = rules (data s)
          \<and> defaultComboId (data s') = defaultComboId (data s)"
    apply (rule exI [of _ ?s'])
    apply (intro conjI)
         apply (rule res)
        apply (simp add: saveData_data)
       apply (simp add: saveData_data)
      apply (rule each)
     apply (simp add: saveData_data)
    apply (simp add: saveData_data)
    done
next
  assume present: "\<exists>c\<in>set (combos (data s)). getProp c ''id'' = JStr ident"
  let ?clear = "\<lambda>r. case r of
                          JObj ps \<Rightarrow>
                            if getProp r ''comboId'' = JStr ident
                            then JObj (putProp ps ''comboId'' (JStr []))
                            else r
                        | _ \<Rightarrow> r"
  let ?s' = "saveData E (s\<lparr> data := (data s)\<lparr>
        combos := filter (\<lambda>x. getProp x ''id'' \<noteq> JStr ident) (combos (data s)),
        rules := map ?clear (rules (data s)),
        defaultComboId := (if defaultComboId (data s) = ident then []
                           else defaultComboId (data s)) \<rparr> \<rparr>)"
  have res: "deleteCombo E ident True s = (None, ?s')"
    by (rule deleteCombo_result [OF objects_nonnull [OF co] ru present])
  have each: "\<forall>i<length (rules (data s)).
                (getProp (rules (data s) ! i) ''comboId'' = JStr ident \<longrightarrow>
                   getProp (rules (data ?s') ! i) ''comboId'' = JStr []
                   \<and> (\<forall>k. k \<noteq> ''comboId'' \<longrightarrow>
                          getProp (rules (data ?s') ! i) k = getProp (rules (data s) ! i) k))
              \<and> (getProp (rules (data s) ! i) ''comboId'' \<noteq> JStr ident \<longrightarrow>
                   rules (data ?s') ! i = rules (data s) ! i)"
  proof (intro allI impI)
    fix i assume i: "i < length (rules (data s))"
    then have "rules (data s) ! i \<in> set (rules (data s))" by simp
    with ru obtain ps where ps: "rules (data s) ! i = JObj ps" by blast
    have new: "rules (data ?s') ! i =
            (if getProp (JObj ps) ''comboId'' = JStr ident
             then JObj (putProp ps ''comboId'' (JStr [])) else JObj ps)"
      using i by (simp add: saveData_data ps)
    show "(getProp (rules (data s) ! i) ''comboId'' = JStr ident \<longrightarrow>
                   getProp (rules (data ?s') ! i) ''comboId'' = JStr []
                   \<and> (\<forall>k. k \<noteq> ''comboId'' \<longrightarrow>
                          getProp (rules (data ?s') ! i) k = getProp (rules (data s) ! i) k))
              \<and> (getProp (rules (data s) ! i) ''comboId'' \<noteq> JStr ident \<longrightarrow>
                   rules (data ?s') ! i = rules (data s) ! i)"
      unfolding new ps by (simp add: map_of_putProp)
  qed
  show "\<exists>s'. deleteCombo E ident True s = (None, s')
          \<and> combos (data s') = filter (\<lambda>c. getProp c ''id'' \<noteq> JStr ident) (combos (data s))
          \<and> defaultComboId (data s') =
               (if defaultComboId (data s) = ident then [] else defaultComboId (data s))
          \<and> length (rules (data s')) = length (rules (data s))
          \<and> (\<forall>i<length (rules (data s)).
                (getProp (rules (data s) ! i) ''comboId'' = JStr ident \<longrightarrow>
                   getProp (rules (data s') ! i) ''comboId'' = JStr []
                   \<and> (\<forall>k. k \<noteq> ''comboId'' \<longrightarrow>
                          getProp (rules (data s') ! i) k = getProp (rules (data s) ! i) k))
              \<and> (getProp (rules (data s) ! i) ''comboId'' \<noteq> JStr ident \<longrightarrow>
                   rules (data s') ! i = rules (data s) ! i))
          \<and> blankets (data s') = blankets (data s)"
    apply (rule exI [of _ ?s'])
    apply (intro conjI)
         apply (rule res)
        apply (simp add: saveData_data)
       apply (simp add: saveData_data)
      apply (simp add: saveData_data)
     apply (rule each)
    apply (simp add: saveData_data)
    done
qed

lemma exampleState_data: "data exampleState = exampleData"
  by (simp add: exampleState_def)

lemma exampleData_fields:
  "blankets exampleData = exampleBlankets"
  "combos exampleData = [lightCombo, heavyCombo]"
  "rules exampleData = [coldRule, catchAllRule]"
  "defaultComboId exampleData = ''c1''"
  by (simp_all add: exampleData_def)

theorem delete_frame_witness:
  "list_all (\<lambda>b. b \<noteq> JNull \<and> b \<noteq> JUndefined) (blankets (data exampleState))
   \<and> (\<exists>s'. deleteBlanket exampleEnv ''b1'' True exampleState = (None, s')
          \<and> length (combos (data s')) = 2
          \<and> arrayOrEmpty (getProp (combos (data s') ! 0) ''blanketIds'') = []
          \<and> arrayOrEmpty (getProp (combos (data s') ! 1) ''blanketIds'') = [JStr ''b2'']
          \<and> getProp (combos (data s') ! 1) ''name'' = JStr ''Heavy'')
   \<and> (\<exists>s'. deleteCombo exampleEnv ''c1'' True exampleState = (None, s')
          \<and> defaultComboId (data s') = []
          \<and> rules (data s') ! 0 = coldRule
          \<and> getProp (rules (data s') ! 1) ''comboId'' = JStr []
          \<and> getProp (rules (data s') ! 1) ''name'' = JStr ''Always''
          \<and> blankets (data s') = exampleBlankets)"
proof -
  have bl: "\<forall>b\<in>set (blankets (data exampleState)). b \<noteq> JNull \<and> b \<noteq> JUndefined"
    by (simp add: exampleState_data exampleData_fields exampleBlankets_def)
  have co: "\<forall>c\<in>set (combos (data exampleState)). \<exists>ps. c = JObj ps"
    by (simp add: exampleState_data exampleData_fields lightCombo_def heavyCombo_def)
  have ru: "\<forall>r\<in>set (rules (data exampleState)). \<exists>ps. r = JObj ps"
    by (simp add: exampleState_data exampleData_fields coldRule_def catchAllRule_def)
  have hasB: "\<exists>b\<in>set (blankets (data exampleState)). getProp b ''id'' = JStr ''b1''"
    by (simp add: exampleState_data exampleData_fields exampleBlankets_def)
  have hasC: "\<exists>c\<in>set (combos (data exampleState)). getProp c ''id'' = JStr ''c1''"
    by (simp add: exampleState_data exampleData_fields lightCombo_def heavyCombo_def)
  from delete_frame [OF bl co ru, of "''b1''" exampleEnv, THEN conjunct1] hasB
  obtain s1 where s1: "deleteBlanket exampleEnv ''b1'' True exampleState = (None, s1)"
    and len: "length (combos (data s1)) = length (combos (data exampleState))"
    and each: "\<forall>i<length (combos (data exampleState)).
                arrayOrEmpty (getProp (combos (data s1) ! i) ''blanketIds'')
                  = filter (\<lambda>x. x \<noteq> JStr ''b1'')
                      (arrayOrEmpty (getProp (combos (data exampleState) ! i) ''blanketIds''))
              \<and> JStr ''b1'' \<notin> set (arrayOrEmpty (getProp (combos (data s1) ! i) ''blanketIds''))
              \<and> (\<forall>k. k \<noteq> ''blanketIds'' \<longrightarrow>
                     getProp (combos (data s1) ! i) k = getProp (combos (data exampleState) ! i) k)"
    by blast
  from each [THEN spec, of 0] each [THEN spec, of 1]
  have c0: "arrayOrEmpty (getProp (combos (data s1) ! 0) ''blanketIds'') = []"
    and c1: "arrayOrEmpty (getProp (combos (data s1) ! 1) ''blanketIds'') = [JStr ''b2'']"
    and n1: "getProp (combos (data s1) ! 1) ''name'' = JStr ''Heavy''"
    by (simp_all add: exampleState_data exampleData_fields lightCombo_def heavyCombo_def)
  from delete_frame [OF bl co ru, of "''c1''" exampleEnv, THEN conjunct2] hasC
  obtain s2 where s2: "deleteCombo exampleEnv ''c1'' True exampleState = (None, s2)"
    and dflt: "defaultComboId (data s2) =
               (if defaultComboId (data exampleState) = ''c1'' then []
                else defaultComboId (data exampleState))"
    and rs: "\<forall>i<length (rules (data exampleState)).
                (getProp (rules (data exampleState) ! i) ''comboId'' = JStr ''c1'' \<longrightarrow>
                   getProp (rules (data s2) ! i) ''comboId'' = JStr []
                   \<and> (\<forall>k. k \<noteq> ''comboId'' \<longrightarrow>
                          getProp (rules (data s2) ! i) k = getProp (rules (data exampleState) ! i) k))
              \<and> (getProp (rules (data exampleState) ! i) ''comboId'' \<noteq> JStr ''c1'' \<longrightarrow>
                   rules (data s2) ! i = rules (data exampleState) ! i)"
    and bs: "blankets (data s2) = blankets (data exampleState)"
    by blast
  from rs [THEN spec, of 0] rs [THEN spec, of 1]
  have r0: "rules (data s2) ! 0 = coldRule"
    and r1: "getProp (rules (data s2) ! 1) ''comboId'' = JStr []"
    and r1n: "getProp (rules (data s2) ! 1) ''name'' = JStr ''Always''"
    by (simp_all add: exampleState_data exampleData_fields coldRule_def catchAllRule_def)
  have d: "defaultComboId (data s2) = []"
    using dflt by (simp add: exampleState_data exampleData_fields)
  have l: "length (combos (data s1)) = 2"
    using len by (simp add: exampleState_data exampleData_fields)
  have b: "blankets (data s2) = exampleBlankets"
    using bs by (simp add: exampleState_data exampleData_fields)
  from bl have bl': "list_all (\<lambda>b. b \<noteq> JNull \<and> b \<noteq> JUndefined) (blankets (data exampleState))"
    by (simp add: list_all_iff)
  from bl' s1 l c0 c1 n1 s2 d r0 r1 r1n b show ?thesis
    by blast
qed

section \<open>Facts about the import\<close>













section \<open>Sanitizing an imported backup\<close>





section \<open>A rejected import changes nothing\<close>

text \<open>
  Claim C10. When the imported value is not an object (it is falsy, or its type is not
  \<^verbatim>\<open>object\<close>), \<^verbatim>\<open>importData\<close> throws \<^verbatim>\<open>Invalid JSON object\<close> and leaves the state as it was:
  the data store in memory and the contents of the storage are unchanged.
\<close>

theorem import_atomic:
  assumes "\<not> isObjectLike raw"
  shows "importData E raw s = (Some InvalidJsonObject, s)
       \<and> data (snd (importData E raw s)) = data s
       \<and> storage (snd (importData E raw s)) = storage s"
  using assms by (simp add: importData_def sanitizeImportedData_def)

theorem import_atomic_witness:
  "\<not> isObjectLike (JStr ''[]'')
   \<and> importData exampleEnv (JStr ''[]'') exampleState = (Some InvalidJsonObject, exampleState)
   \<and> \<not> isObjectLike (number 5)
   \<and> importData exampleEnv (number 5) exampleState = (Some InvalidJsonObject, exampleState)"
proof -
  have a: "\<not> isObjectLike (JStr ''[]'')" by simp
  have b: "\<not> isObjectLike (number 5)" by (simp add: number_def)
  from import_atomic [OF a, of exampleEnv exampleState]
    import_atomic [OF b, of exampleEnv exampleState] a b
  show ?thesis by simp
qed

end
